theory Spec2Isabelle
  imports Main "HOL-Library.Word"
begin

section \<open>The game player of the fault-dispute challenger\<close>

text \<open>
  A shallow embedding of \<^verbatim>\<open>op-challenger/game/fault/player.go\<close>: the constructor
  \<^verbatim>\<open>NewGamePlayer\<close> and the methods \<^verbatim>\<open>Status\<close>, \<^verbatim>\<open>ProgressGame\<close> and
  \<^verbatim>\<open>logGameStatus\<close> of \<^verbatim>\<open>GamePlayer\<close>.

  The Go code talks to a ledger, to an agent and to a logger. Here the outside world is a
  value of an arbitrary type \<open>'w\<close> that every external call receives and returns, and the
  calls and log records the player's own code makes are appended, in order, to a list of
  events. A Go result \<^verbatim>\<open>(v, err)\<close> is a sum: \<open>Inl err\<close> when \<^verbatim>\<open>err != nil\<close>,
  \<open>Inr v\<close> otherwise; a lone \<^verbatim>\<open>error\<close> result is an \<open>error option\<close>.
\<close>

subsection \<open>Values\<close>

text \<open>
  Modelled from the spec: the declaration of \<^verbatim>\<open>gameTypes.GameStatus\<close> is not among the
  sources; section 3 of the spec gives the status as the enumeration InProgress,
  DefenderWon, ChallengerWon. The three constants are the ones player.go names.
\<close>

datatype GameStatus =
    GameStatusInProgress
  | GameStatusChallengerWon
  | GameStatusDefenderWon

text \<open>
  A Go error: one made elsewhere (known by its message), or \<^verbatim>\<open>fmt.Errorf(format, err)\<close>
  with the verb \<^verbatim>\<open>%w\<close>, which wraps \<^verbatim>\<open>err\<close>.
\<close>

datatype error =
    ErrorNew string
  | Errorf string error

text \<open>\<^verbatim>\<open>common.Address\<close> is 20 bytes; game depth and claim count are \<^verbatim>\<open>uint64\<close>.\<close>

type_synonym Address = "160 word"

type_synonym uint64 = "64 word"

subsection \<open>Logging and the record of effects\<close>

datatype logval =
    VAddress Address
  | VStatus GameStatus
  | VError error
  | VUint64 uint64

text \<open>
  A \<^verbatim>\<open>log.Logger\<close> is known by the key/value context it attaches to every record;
  \<^verbatim>\<open>logger.New(k, v)\<close> is the child logger with one more pair.
\<close>

type_synonym Logger = "(string \<times> logval) list"

definition Logger_New :: "Logger \<Rightarrow> string \<Rightarrow> logval \<Rightarrow> Logger" where
  "Logger_New l k v = l @ [(k, v)]"

datatype Lvl = LvlTrace | LvlInfo | LvlWarn | LvlError

datatype event =
    Log Logger Lvl string "(string \<times> logval) list"
  | Call_act
  | Call_GetStatus
  | Call_GetClaimCount
  | Call_GetMaxGameDepth
  | Call_NewFaultDisputeGameContract
  | Call_creator
  | Call_prestateValidator
  | Call_NewFaultResponder

record 'w sys =
  world :: 'w
  events :: "event list"

definition emit :: "event \<Rightarrow> 'w sys \<Rightarrow> 'w sys" where
  "emit e s = s\<lparr>events := events s @ [e]\<rparr>"

definition Logger_Trace :: "Logger \<Rightarrow> string \<Rightarrow> (string \<times> logval) list \<Rightarrow> 'w sys \<Rightarrow> 'w sys" where
  "Logger_Trace l msg kvs = emit (Log l LvlTrace msg kvs)"

definition Logger_Info :: "Logger \<Rightarrow> string \<Rightarrow> (string \<times> logval) list \<Rightarrow> 'w sys \<Rightarrow> 'w sys" where
  "Logger_Info l msg kvs = emit (Log l LvlInfo msg kvs)"

definition Logger_Warn :: "Logger \<Rightarrow> string \<Rightarrow> (string \<times> logval) list \<Rightarrow> 'w sys \<Rightarrow> 'w sys" where
  "Logger_Warn l msg kvs = emit (Log l LvlWarn msg kvs)"

definition Logger_Error :: "Logger \<Rightarrow> string \<Rightarrow> (string \<times> logval) list \<Rightarrow> 'w sys \<Rightarrow> 'w sys" where
  "Logger_Error l msg kvs = emit (Log l LvlError msg kvs)"

text \<open>
  An external call: the event is recorded, the callee runs on the world and the world it
  leaves behind replaces the old one.
\<close>

definition invoke :: "event \<Rightarrow> ('w \<Rightarrow> 'a \<times> 'w) \<Rightarrow> 'w sys \<Rightarrow> 'a \<times> 'w sys" where
  "invoke e f s =
     (case f (world s) of (r, w') \<Rightarrow> (r, \<lparr>world = w', events = events s @ [e]\<rparr>))"

subsection \<open>The types of player.go\<close>

text \<open>
  \<^verbatim>\<open>type actor func(ctx context.Context) error\<close>. What the act step itself calls or
  logs happens inside the world; the list of events holds what player.go does.
\<close>

type_synonym ('c, 'w) actor = "'c \<Rightarrow> 'w \<Rightarrow> error option \<times> 'w"

text \<open>The interface \<^verbatim>\<open>GameInfo\<close>.\<close>

record ('c, 'w) GameInfo =
  GetStatus :: "'c \<Rightarrow> 'w \<Rightarrow> (error + GameStatus) \<times> 'w"
  GetClaimCount :: "'c \<Rightarrow> 'w \<Rightarrow> (error + uint64) \<times> 'w"

text \<open>
  \<^verbatim>\<open>*contracts.FaultDisputeGameContract\<close>, of which player.go uses the two methods of
  \<^verbatim>\<open>GameInfo\<close> and \<^verbatim>\<open>GetMaxGameDepth\<close>.
\<close>

record ('c, 'w) FaultDisputeGameContract = "('c, 'w) GameInfo" +
  GetMaxGameDepth :: "'c \<Rightarrow> 'w \<Rightarrow> (error + uint64) \<times> 'w"

record ('c, 'w) GamePlayer =
  act :: "('c, 'w) actor"
  agreeWithProposedOutput :: bool
  loader :: "('c, 'w) GameInfo"
  logger :: Logger
  status :: GameStatus

type_synonym ('c, 'w) absolutePrestateValidator =
  "'c \<Rightarrow> ('c, 'w) FaultDisputeGameContract \<Rightarrow> 'w \<Rightarrow> error option \<times> 'w"

type_synonym ('c, 'w, 'p, 'u) resourceCreator =
  "Address \<Rightarrow> uint64 \<Rightarrow> string \<Rightarrow> 'w \<Rightarrow>
     (error + 'p \<times> 'u \<times> ('c, 'w) absolutePrestateValidator) \<times> 'w"

text \<open>The one field of \<^verbatim>\<open>config.Config\<close> that player.go reads.\<close>

record Config =
  AgreeWithProposedOutput :: bool

text \<open>
  The functions of other packages that \<^verbatim>\<open>NewGamePlayer\<close> calls are parameters:
  \<open>'m\<close> is \<^verbatim>\<open>metrics.Metricer\<close>, \<open>'t\<close> is \<^verbatim>\<open>txmgr.TxManager\<close>, \<open>'e\<close> is
  \<^verbatim>\<open>*ethclient.Client\<close>, \<open>'r\<close> its \<^verbatim>\<open>*rpc.Client\<close>, \<open>'b\<close> is
  \<^verbatim>\<open>*batching.MultiCaller\<close>, \<open>'p\<close> is \<^verbatim>\<open>types.TraceAccessor\<close>, \<open>'u\<close> is
  \<^verbatim>\<open>types.OracleUpdater\<close> and \<open>'f\<close> is \<^verbatim>\<open>*responder.FaultResponder\<close>.
  \<open>NewAgent\<close> stands for \<^verbatim>\<open>NewAgent(...).Act\<close>, the method value stored in the player.
\<close>

record ('c, 'w, 'm, 't, 'e, 'r, 'b, 'p, 'u, 'f) externals =
  Client :: "'e \<Rightarrow> 'r"
  DefaultBatchSize :: int
  NewMultiCaller :: "'r \<Rightarrow> int \<Rightarrow> 'b"
  NewFaultDisputeGameContract ::
    "Address \<Rightarrow> 'b \<Rightarrow> 'w \<Rightarrow> (error + ('c, 'w) FaultDisputeGameContract) \<times> 'w"
  NewFaultResponder :: "Logger \<Rightarrow> 't \<Rightarrow> Address \<Rightarrow> 'w \<Rightarrow> (error + 'f) \<times> 'w"
  NewAgent ::
    "'m \<Rightarrow> ('c, 'w) FaultDisputeGameContract \<Rightarrow> int \<Rightarrow> 'p \<Rightarrow> 'f \<Rightarrow> 'u \<Rightarrow> bool \<Rightarrow> Logger
       \<Rightarrow> ('c, 'w) actor"

subsection \<open>NewGamePlayer\<close>

text \<open>
  Each \<^verbatim>\<open>if err != nil { return nil, fmt.Errorf(...) }\<close> is an \<open>Inl\<close> branch.
  \<^verbatim>\<open>int(gameDepth)\<close> reads the 64 bits as a signed number. The pointers
  \<^verbatim>\<open>cfg\<close> and \<^verbatim>\<open>client\<close> are taken to be non-nil.
\<close>

definition NewGamePlayer ::
  "('c, 'w, 'm, 't, 'e, 'r, 'b, 'p, 'u, 'f) externals \<Rightarrow> 'c \<Rightarrow> Logger \<Rightarrow> 'm \<Rightarrow> Config \<Rightarrow>
     string \<Rightarrow> Address \<Rightarrow> 't \<Rightarrow> 'e \<Rightarrow> ('c, 'w, 'p, 'u) resourceCreator \<Rightarrow> 'w sys \<Rightarrow>
     (error + ('c, 'w) GamePlayer) \<times> 'w sys" where
  "NewGamePlayer X ctx logger0 m cfg dir addr txMgr client creator s =
     (let logger' = Logger_New logger0 ''game'' (VAddress addr) in
      case invoke Call_NewFaultDisputeGameContract
             (NewFaultDisputeGameContract X addr
                (NewMultiCaller X (Client X client) (DefaultBatchSize X))) s of
        (Inl err, s1) \<Rightarrow>
          (Inl (Errorf ''failed to create fault dispute game contract wrapper: %w'' err), s1)
      | (Inr loader', s1) \<Rightarrow>
     (case invoke Call_GetStatus (GetStatus loader' ctx) s1 of
        (Inl err, s2) \<Rightarrow> (Inl (Errorf ''failed to fetch game status: %w'' err), s2)
      | (Inr status', s2) \<Rightarrow>
     if status' \<noteq> GameStatusInProgress then
       (let s3 = Logger_Info logger' ''Game already resolved'' [(''status'', VStatus status')] s2
        in (Inr \<lparr>act = (\<lambda>ctx w. (None, w)),
                 agreeWithProposedOutput = AgreeWithProposedOutput cfg,
                 loader = GameInfo.truncate loader',
                 logger = logger',
                 status = status'\<rparr>, s3))
     else
     (case invoke Call_GetMaxGameDepth (GetMaxGameDepth loader' ctx) s2 of
        (Inl err, s3) \<Rightarrow> (Inl (Errorf ''failed to fetch the game depth: %w'' err), s3)
      | (Inr gameDepth, s3) \<Rightarrow>
     (case invoke Call_creator (creator addr gameDepth dir) s3 of
        (Inl err, s4) \<Rightarrow> (Inl (Errorf ''failed to create trace provider: %w'' err), s4)
      | (Inr (provider, updater, prestateValidator), s4) \<Rightarrow>
     (case invoke Call_prestateValidator (prestateValidator ctx loader') s4 of
        (Some err, s5) \<Rightarrow>
          (Inl (Errorf ''failed to validate absolute prestate: %w'' err), s5)
      | (None, s5) \<Rightarrow>
     (case invoke Call_NewFaultResponder (NewFaultResponder X logger' txMgr addr) s5 of
        (Inl err, s6) \<Rightarrow> (Inl (Errorf ''failed to create the responder: %w'' err), s6)
      | (Inr responder, s6) \<Rightarrow>
        (Inr \<lparr>act = NewAgent X m loader' (sint gameDepth) provider responder updater
                       (AgreeWithProposedOutput cfg) logger',
              agreeWithProposedOutput = AgreeWithProposedOutput cfg,
              loader = GameInfo.truncate loader',
              logger = logger',
              status = status'\<rparr>, s6)))))))"

subsection \<open>Status, logGameStatus and ProgressGame\<close>

definition Status :: "('c, 'w) GamePlayer \<Rightarrow> GameStatus" where
  "Status g = status g"

text \<open>\<^verbatim>\<open>logGameStatus\<close> writes no field of the player; it only calls and logs.\<close>

definition logGameStatus :: "'c \<Rightarrow> ('c, 'w) GamePlayer \<Rightarrow> GameStatus \<Rightarrow> 'w sys \<Rightarrow> 'w sys" where
  "logGameStatus ctx g status' s =
     (if status' = GameStatusInProgress then
        (case invoke Call_GetClaimCount (GetClaimCount (loader g) ctx) s of
           (Inl err, s1) \<Rightarrow>
             Logger_Error (logger g) ''Failed to get claim count for in progress game''
               [(''err'', VError err)] s1
         | (Inr claimCount, s1) \<Rightarrow>
             Logger_Info (logger g) ''Game info''
               [(''claims'', VUint64 claimCount), (''status'', VStatus status')] s1)
      else
        (let expectedStatus =
               (if agreeWithProposedOutput g then GameStatusChallengerWon
                else GameStatusDefenderWon)
         in if expectedStatus = status'
            then Logger_Info (logger g) ''Game won'' [(''status'', VStatus status')] s
            else Logger_Error (logger g) ''Game lost'' [(''status'', VStatus status')] s))"

text \<open>
  \<^verbatim>\<open>ProgressGame\<close> returns the status; the receiver it may have written and the
  world and events it leaves are returned with it.
\<close>

definition ProgressGame ::
  "'c \<Rightarrow> ('c, 'w) GamePlayer \<Rightarrow> 'w sys \<Rightarrow> GameStatus \<times> ('c, 'w) GamePlayer \<times> 'w sys" where
  "ProgressGame ctx g s =
     (if status g \<noteq> GameStatusInProgress then
        (let s1 = Logger_Trace (logger g) ''Skipping completed game'' [] s
         in (status g, g, s1))
      else
        (let s1 = Logger_Trace (logger g) ''Checking if actions are required'' [] s in
         case invoke Call_act (act g ctx) s1 of (r, s2) \<Rightarrow>
        (let s3 = (case r of
                     Some err \<Rightarrow>
                       Logger_Error (logger g) ''Error when acting on game''
                         [(''err'', VError err)] s2
                   | None \<Rightarrow> s2) in
         case invoke Call_GetStatus (GetStatus (loader g) ctx) s3 of
           (Inl err, s4) \<Rightarrow>
             (GameStatusInProgress, g,
              Logger_Warn (logger g) ''Unable to retrieve game status''
                [(''err'', VError err)] s4)
         | (Inr status', s4) \<Rightarrow>
             (let s5 = logGameStatus ctx g status' s4
              in (status', g\<lparr>status := status'\<rparr>, s5)))))"

text \<open>
  The caller's polling loop (section 5 of the spec: an external caller invokes
  \<^verbatim>\<open>ProgressGame\<close> repeatedly). Between two calls the rest of the world moves: each
  cycle is the change of the world since the last call and the context of the call.
\<close>

fun poll :: "(('w \<Rightarrow> 'w) \<times> 'c) list \<Rightarrow> ('c, 'w) GamePlayer \<Rightarrow> 'w sys \<Rightarrow>
    GameStatus list \<times> ('c, 'w) GamePlayer \<times> 'w sys" where
  "poll [] g s = ([], g, s)"
| "poll ((env, ctx) # cycles) g s =
     (case ProgressGame ctx g (s\<lparr>world := env (world s)\<rparr>) of (r, g', s') \<Rightarrow>
      case poll cycles g' s' of (rs, g'', s'') \<Rightarrow> (r # rs, g'', s''))"

subsection \<open>Observing a run\<close>

text \<open>The events a run appended: those of the state after it, past the ones before it.\<close>

definition new_events :: "'w sys \<Rightarrow> 'w sys \<Rightarrow> event list" where
  "new_events s s' = drop (length (events s)) (events s')"

text \<open>The record \<^verbatim>\<open>ProgressGame\<close> writes when the act step returned \<open>r\<close>.\<close>

definition act_error_log :: "Logger \<Rightarrow> error option \<Rightarrow> event list" where
  "act_error_log l r =
     (case r of
        None \<Rightarrow> []
      | Some err \<Rightarrow> [Log l LvlError ''Error when acting on game'' [(''err'', VError err)]])"

fun level_of :: "event \<Rightarrow> Lvl option" where
  "level_of (Log l lv msg kvs) = Some lv"
| "level_of _ = None"

definition logged_at :: "Lvl \<Rightarrow> event list \<Rightarrow> bool" where
  "logged_at lv evs = (Some lv \<in> set (map level_of evs))"

subsection \<open>Test doubles\<close>

text \<open>
  A ledger that answers every read with a fixed result; the world counts the reads.
\<close>

definition stubContract ::
  "(error + GameStatus) \<Rightarrow> (error + uint64) \<Rightarrow> (error + uint64) \<Rightarrow>
     (unit, nat) FaultDisputeGameContract" where
  "stubContract st cc d =
     \<lparr>GetStatus = (\<lambda>ctx w. (st, Suc w)),
      GetClaimCount = (\<lambda>ctx w. (cc, Suc w)),
      GetMaxGameDepth = (\<lambda>ctx w. (d, Suc w))\<rparr>"

definition stubPlayer ::
  "error option \<Rightarrow> (error + GameStatus) \<Rightarrow> (error + uint64) \<Rightarrow> bool \<Rightarrow> GameStatus \<Rightarrow>
     (unit, nat) GamePlayer" where
  "stubPlayer a st cc agree cached =
     \<lparr>act = (\<lambda>ctx w. (a, w + 10)),
      agreeWithProposedOutput = agree,
      loader = GameInfo.truncate (stubContract st cc (Inr 4)),
      logger = [],
      status = cached\<rparr>"

definition stubSys :: "nat sys" where
  "stubSys = \<lparr>world = 0, events = []\<rparr>"

definition stubExternals ::
  "(error + (unit, nat) FaultDisputeGameContract) \<Rightarrow> (error + unit) \<Rightarrow>
     (unit, nat, unit, unit, unit, unit, unit, unit, unit, unit) externals" where
  "stubExternals c r =
     \<lparr>Client = (\<lambda>e. ()),
      DefaultBatchSize = 100,
      NewMultiCaller = (\<lambda>r n. ()),
      NewFaultDisputeGameContract = (\<lambda>addr b w. (c, w)),
      NewFaultResponder = (\<lambda>l t a w. (r, w)),
      NewAgent = (\<lambda>m l d p f u agree lg ctx w. (None, w + 10))\<rparr>"

definition stubCreator ::
  "error option \<Rightarrow> error option \<Rightarrow> (unit, nat, unit, unit) resourceCreator" where
  "stubCreator c v =
     (\<lambda>addr d dir w.
        (case c of
           Some err \<Rightarrow> Inl err
         | None \<Rightarrow> Inr ((), (), (\<lambda>ctx l w'. (v, Suc w'))), Suc w))"

subsection \<open>How the calls compose\<close>

lemmas Logger_defs = Logger_Trace_def Logger_Info_def Logger_Warn_def Logger_Error_def

lemmas stub_defs = stubPlayer_def stubSys_def stubContract_def GameInfo.truncate_def

lemmas run_defs = ProgressGame_def logGameStatus_def invoke_def Logger_defs emit_def
  new_events_def logged_at_def act_error_log_def Status_def

lemmas new_defs = NewGamePlayer_def stubExternals_def stubCreator_def Logger_New_def Let_def

text \<open>What \<^verbatim>\<open>ProgressGame\<close> returns on each of its paths.\<close>

lemma ProgressGame_terminal:
  assumes "status g \<noteq> GameStatusInProgress"
  shows "ProgressGame ctx g s =
           (status g, g, s\<lparr>events := events s @ [Log (logger g) LvlTrace ''Skipping completed game'' []]\<rparr>)"
  using assms by (simp add: ProgressGame_def Logger_defs emit_def)

lemma poll_terminal:
  assumes "status g \<noteq> GameStatusInProgress"
  shows "poll cycles g s =
           (replicate (length cycles) (status g), g,
            s\<lparr>world := fold fst cycles (world s),
              events := events s @ replicate (length cycles) (Log (logger g) LvlTrace ''Skipping completed game'' [])\<rparr>)"
  using assms
proof (induction cycles arbitrary: s)
  case Nil
  then show ?case by simp
next
  case (Cons c cycles)
  obtain env ctx where c: "c = (env, ctx)" by (cases c)
  show ?case
    using Cons.prems
    by (simp add: c ProgressGame_terminal Cons.IH replicate_append_same)
qed

lemma ProgressGame_fetch_failed:
  assumes "status g = GameStatusInProgress"
    and "act g ctx (world s) = (r, w1)"
    and "GetStatus (loader g) ctx w1 = (Inl err, w2)"
  shows "ProgressGame ctx g s =
     (GameStatusInProgress, g,
      \<lparr>world = w2,
       events = events s @ [Log (logger g) LvlTrace ''Checking if actions are required'' [], Call_act]
          @ act_error_log (logger g) r
          @ [Call_GetStatus, Log (logger g) LvlWarn ''Unable to retrieve game status'' [(''err'', VError err)]]\<rparr>)"
  using assms
  by (cases r) (simp_all add: ProgressGame_def invoke_def Logger_defs emit_def act_error_log_def)

lemma logGameStatus_terminal:
  assumes "st \<noteq> GameStatusInProgress"
  shows "logGameStatus ctx g st s =
     s\<lparr>events := events s @
        [if agreeWithProposedOutput g \<and> st = GameStatusChallengerWon
            \<or> \<not> agreeWithProposedOutput g \<and> st = GameStatusDefenderWon
         then Log (logger g) LvlInfo ''Game won'' [(''status'', VStatus st)]
         else Log (logger g) LvlError ''Game lost'' [(''status'', VStatus st)]]\<rparr>"
  using assms by (cases st) (simp_all add: logGameStatus_def Logger_defs emit_def)

lemma logGameStatus_in_progress:
  assumes "GetClaimCount (loader g) ctx (world s) = (cc, w')"
  shows "logGameStatus ctx g GameStatusInProgress s =
     \<lparr>world = w',
      events = events s @
        [Call_GetClaimCount,
         case cc of
           Inl err \<Rightarrow> Log (logger g) LvlError ''Failed to get claim count for in progress game'' [(''err'', VError err)]
         | Inr claimCount \<Rightarrow> Log (logger g) LvlInfo ''Game info''
             [(''claims'', VUint64 claimCount), (''status'', VStatus GameStatusInProgress)]]\<rparr>"
  using assms by (cases cc) (simp_all add: logGameStatus_def invoke_def Logger_defs emit_def)

lemma ProgressGame_fetched:
  assumes "status g = GameStatusInProgress"
    and "act g ctx (world s) = (r, w1)"
    and "GetStatus (loader g) ctx w1 = (Inr st, w2)"
  shows "ProgressGame ctx g s =
     (st, g\<lparr>status := st\<rparr>,
      logGameStatus ctx g st
        \<lparr>world = w2,
         events = events s @ [Log (logger g) LvlTrace ''Checking if actions are required'' [], Call_act]
          @ act_error_log (logger g) r @ [Call_GetStatus]\<rparr>)"
  using assms
  by (cases r) (simp_all add: ProgressGame_def invoke_def Logger_defs emit_def act_error_log_def)

lemma ProgressGame_frame:
  "fst (snd (ProgressGame ctx g s)) = g\<lparr>status := fst (ProgressGame ctx g s)\<rparr>"
proof (cases "status g = GameStatusInProgress")
  case False
  then show ?thesis by (simp add: ProgressGame_terminal)
next
  case True
  obtain r w1 where a: "act g ctx (world s) = (r, w1)" by (cases "act g ctx (world s)")
  obtain q w2 where f: "GetStatus (loader g) ctx w1 = (q, w2)"
    by (cases "GetStatus (loader g) ctx w1")
  show ?thesis
  proof (cases q)
    case (Inl err)
    with True a f show ?thesis
      using ProgressGame_fetch_failed [of g ctx s r w1 err w2] by simp
  next
    case (Inr st)
    with True a f show ?thesis by (simp add: ProgressGame_fetched)
  qed
qed

lemma poll_frame:
  "\<exists>st. fst (snd (poll cycles g s)) = g\<lparr>status := st\<rparr>"
proof (induction cycles arbitrary: g s)
  case Nil
  have "g = g\<lparr>status := status g\<rparr>" by simp
  then show ?case by (metis poll.simps(1) fst_conv snd_conv)
next
  case (Cons c cycles)
  obtain env ctx where c: "c = (env, ctx)" by (cases c)
  obtain r g' s' where p: "ProgressGame ctx g (s\<lparr>world := env (world s)\<rparr>) = (r, g', s')"
    by (cases "ProgressGame ctx g (s\<lparr>world := env (world s)\<rparr>)")
  have g': "g' = g\<lparr>status := r\<rparr>"
    using ProgressGame_frame [of ctx g "s\<lparr>world := env (world s)\<rparr>"] p by simp
  obtain st where "fst (snd (poll cycles g' s')) = g'\<lparr>status := st\<rparr>"
    using Cons.IH by blast
  then have "fst (snd (poll (c # cycles) g s)) = g\<lparr>status := st\<rparr>"
    by (auto simp: c p g' split: prod.splits)
  then show ?case by blast
qed

lemma poll_last:
  "last (fst (poll (c # cycles) g s)) = status (fst (snd (poll (c # cycles) g s)))"
proof (induction cycles arbitrary: c g s)
  case Nil
  obtain env ctx where c: "c = (env, ctx)" by (cases c)
  show ?case
    using ProgressGame_frame [of ctx g "s\<lparr>world := env (world s)\<rparr>"]
    by (auto simp: c split: prod.splits)
next
  case (Cons c' cycles)
  obtain env ctx where c: "c = (env, ctx)" by (cases c)
  obtain r g' s' where p: "ProgressGame ctx g (s\<lparr>world := env (world s)\<rparr>) = (r, g', s')"
    by (cases "ProgressGame ctx g (s\<lparr>world := env (world s)\<rparr>)")
  obtain rs g'' s'' where q: "poll (c' # cycles) g' s' = (rs, g'', s'')"
    by (cases "poll (c' # cycles) g' s'")
  have "rs \<noteq> []"
    using q by (cases c') (auto split: prod.splits)
  moreover have "last rs = status g''"
    using Cons.IH [of c' g' s'] q by simp
  ultimately show ?case
    using p q by (simp add: c)
qed

text \<open>What \<^verbatim>\<open>NewGamePlayer\<close> returns on each of its paths.\<close>

lemma NewGamePlayer_contract_failed:
  assumes "NewFaultDisputeGameContract X addr
             (NewMultiCaller X (Client X client) (DefaultBatchSize X)) (world s) = (Inl err, w1)"
  shows "NewGamePlayer X ctx logger0 m cfg dir addr txMgr client creator s =
     (Inl (Errorf ''failed to create fault dispute game contract wrapper: %w'' err),
      \<lparr>world = w1, events = events s @ [Call_NewFaultDisputeGameContract]\<rparr>)"
  using assms by (simp add: NewGamePlayer_def invoke_def Let_def)

lemma NewGamePlayer_status_failed:
  assumes "NewFaultDisputeGameContract X addr
             (NewMultiCaller X (Client X client) (DefaultBatchSize X)) (world s) = (Inr l, w1)"
    and "GetStatus l ctx w1 = (Inl err, w2)"
  shows "NewGamePlayer X ctx logger0 m cfg dir addr txMgr client creator s =
     (Inl (Errorf ''failed to fetch game status: %w'' err),
      \<lparr>world = w2, events = events s @ [Call_NewFaultDisputeGameContract, Call_GetStatus]\<rparr>)"
  using assms by (simp add: NewGamePlayer_def invoke_def Let_def)

lemma NewGamePlayer_resolved:
  assumes "NewFaultDisputeGameContract X addr
             (NewMultiCaller X (Client X client) (DefaultBatchSize X)) (world s) = (Inr l, w1)"
    and "GetStatus l ctx w1 = (Inr st, w2)"
    and "st \<noteq> GameStatusInProgress"
  shows "NewGamePlayer X ctx logger0 m cfg dir addr txMgr client creator s =
     (Inr \<lparr>act = (\<lambda>ctx w. (None, w)),
           agreeWithProposedOutput = AgreeWithProposedOutput cfg,
           loader = GameInfo.truncate l,
           logger = Logger_New logger0 ''game'' (VAddress addr),
           status = st\<rparr>,
      \<lparr>world = w2,
       events = events s @
         [Call_NewFaultDisputeGameContract, Call_GetStatus,
          Log (Logger_New logger0 ''game'' (VAddress addr)) LvlInfo ''Game already resolved''
            [(''status'', VStatus st)]]\<rparr>)"
  using assms by (simp add: NewGamePlayer_def invoke_def Logger_defs emit_def Let_def)

lemma NewGamePlayer_depth_failed:
  assumes "NewFaultDisputeGameContract X addr
             (NewMultiCaller X (Client X client) (DefaultBatchSize X)) (world s) = (Inr l, w1)"
    and "GetStatus l ctx w1 = (Inr GameStatusInProgress, w2)"
    and "GetMaxGameDepth l ctx w2 = (Inl err, w3)"
  shows "NewGamePlayer X ctx logger0 m cfg dir addr txMgr client creator s =
     (Inl (Errorf ''failed to fetch the game depth: %w'' err),
      \<lparr>world = w3,
       events = events s @
         [Call_NewFaultDisputeGameContract, Call_GetStatus, Call_GetMaxGameDepth]\<rparr>)"
  using assms by (simp add: NewGamePlayer_def invoke_def Let_def)

lemma NewGamePlayer_creator_failed:
  assumes "NewFaultDisputeGameContract X addr
             (NewMultiCaller X (Client X client) (DefaultBatchSize X)) (world s) = (Inr l, w1)"
    and "GetStatus l ctx w1 = (Inr GameStatusInProgress, w2)"
    and "GetMaxGameDepth l ctx w2 = (Inr d, w3)"
    and "creator addr d dir w3 = (Inl err, w4)"
  shows "NewGamePlayer X ctx logger0 m cfg dir addr txMgr client creator s =
     (Inl (Errorf ''failed to create trace provider: %w'' err),
      \<lparr>world = w4,
       events = events s @
         [Call_NewFaultDisputeGameContract, Call_GetStatus, Call_GetMaxGameDepth,
          Call_creator]\<rparr>)"
  using assms by (simp add: NewGamePlayer_def invoke_def Let_def)

lemma NewGamePlayer_prestate_failed:
  assumes "NewFaultDisputeGameContract X addr
             (NewMultiCaller X (Client X client) (DefaultBatchSize X)) (world s) = (Inr l, w1)"
    and "GetStatus l ctx w1 = (Inr GameStatusInProgress, w2)"
    and "GetMaxGameDepth l ctx w2 = (Inr d, w3)"
    and "creator addr d dir w3 = (Inr (p, u, v), w4)"
    and "v ctx l w4 = (Some err, w5)"
  shows "NewGamePlayer X ctx logger0 m cfg dir addr txMgr client creator s =
     (Inl (Errorf ''failed to validate absolute prestate: %w'' err),
      \<lparr>world = w5,
       events = events s @
         [Call_NewFaultDisputeGameContract, Call_GetStatus, Call_GetMaxGameDepth,
          Call_creator, Call_prestateValidator]\<rparr>)"
  using assms by (simp add: NewGamePlayer_def invoke_def Let_def)

lemma NewGamePlayer_responder_failed:
  assumes "NewFaultDisputeGameContract X addr
             (NewMultiCaller X (Client X client) (DefaultBatchSize X)) (world s) = (Inr l, w1)"
    and "GetStatus l ctx w1 = (Inr GameStatusInProgress, w2)"
    and "GetMaxGameDepth l ctx w2 = (Inr d, w3)"
    and "creator addr d dir w3 = (Inr (p, u, v), w4)"
    and "v ctx l w4 = (None, w5)"
    and "NewFaultResponder X (Logger_New logger0 ''game'' (VAddress addr)) txMgr addr w5
           = (Inl err, w6)"
  shows "NewGamePlayer X ctx logger0 m cfg dir addr txMgr client creator s =
     (Inl (Errorf ''failed to create the responder: %w'' err),
      \<lparr>world = w6,
       events = events s @
         [Call_NewFaultDisputeGameContract, Call_GetStatus, Call_GetMaxGameDepth,
          Call_creator, Call_prestateValidator, Call_NewFaultResponder]\<rparr>)"
  using assms by (simp add: NewGamePlayer_def invoke_def Let_def)

lemma NewGamePlayer_in_progress:
  assumes "NewFaultDisputeGameContract X addr
             (NewMultiCaller X (Client X client) (DefaultBatchSize X)) (world s) = (Inr l, w1)"
    and "GetStatus l ctx w1 = (Inr GameStatusInProgress, w2)"
    and "GetMaxGameDepth l ctx w2 = (Inr d, w3)"
    and "creator addr d dir w3 = (Inr (p, u, v), w4)"
    and "v ctx l w4 = (None, w5)"
    and "NewFaultResponder X (Logger_New logger0 ''game'' (VAddress addr)) txMgr addr w5
           = (Inr f, w6)"
  shows "NewGamePlayer X ctx logger0 m cfg dir addr txMgr client creator s =
     (Inr \<lparr>act = NewAgent X m l (sint d) p f u (AgreeWithProposedOutput cfg)
                   (Logger_New logger0 ''game'' (VAddress addr)),
           agreeWithProposedOutput = AgreeWithProposedOutput cfg,
           loader = GameInfo.truncate l,
           logger = Logger_New logger0 ''game'' (VAddress addr),
           status = GameStatusInProgress\<rparr>,
      \<lparr>world = w6,
       events = events s @
         [Call_NewFaultDisputeGameContract, Call_GetStatus, Call_GetMaxGameDepth,
          Call_creator, Call_prestateValidator, Call_NewFaultResponder]\<rparr>)"
  using assms by (simp add: NewGamePlayer_def invoke_def Let_def)

subsection \<open>The claims of the specification\<close>

text \<open>
  C1. The contract wrapper is created and \<^verbatim>\<open>GetStatus\<close> returns a status \<open>st\<close> other than
  InProgress: \<^verbatim>\<open>NewGamePlayer\<close> succeeds. The player caches \<open>st\<close> and its act step returns
  no error and leaves the world alone. Construction made two calls only, the wrapper's
  creation and the status fetch: the resource creator was not called (so no trace accessor
  and no oracle updater was built), no prestate was validated and no responder created.
  \<^verbatim>\<open>ProgressGame\<close> on that player returns \<open>st\<close> and the same player, with no call at all.
\<close>

theorem resolved_game_gives_noop_player:
  assumes "NewFaultDisputeGameContract X addr
             (NewMultiCaller X (Client X client) (DefaultBatchSize X)) (world s) = (Inr l, w1)"
    and "GetStatus l ctx w1 = (Inr st, w2)"
    and "st \<noteq> GameStatusInProgress"
  shows "\<exists>g s'. NewGamePlayer X ctx logger0 m cfg dir addr txMgr client creator s = (Inr g, s')
       \<and> status g = st
       \<and> act g = (\<lambda>ctx' w. (None, w))
       \<and> world s' = w2
       \<and> new_events s s' =
           [Call_NewFaultDisputeGameContract, Call_GetStatus,
            Log (logger g) LvlInfo ''Game already resolved'' [(''status'', VStatus st)]]
       \<and> Call_creator \<notin> set (new_events s s')
       \<and> Call_prestateValidator \<notin> set (new_events s s')
       \<and> Call_NewFaultResponder \<notin> set (new_events s s')
       \<and> (\<forall>ctx' t. ProgressGame ctx' g t =
             (st, g,
              t\<lparr>events := events t @ [Log (logger g) LvlTrace ''Skipping completed game'' []]\<rparr>))"
  using assms
  by (simp add: NewGamePlayer_resolved new_events_def ProgressGame_terminal)

theorem resolved_game_gives_noop_player_witness:
  "GetStatus (stubContract (Inr GameStatusDefenderWon) (Inr 3) (Inr 4)) () 0
     = (Inr GameStatusDefenderWon, 1)
   \<and> (case NewGamePlayer
          (stubExternals (Inr (stubContract (Inr GameStatusDefenderWon) (Inr 3) (Inr 4))) (Inr ()))
          () [] () \<lparr>AgreeWithProposedOutput = True\<rparr> ''dir'' 7 () () (stubCreator None None)
          stubSys of
        (Inl err, s') \<Rightarrow> False
      | (Inr g, s') \<Rightarrow>
          status g = GameStatusDefenderWon
        \<and> act g () 5 = (None, 5)
        \<and> events s' =
            [Call_NewFaultDisputeGameContract, Call_GetStatus,
             Log [(''game'', VAddress 7)] LvlInfo ''Game already resolved''
               [(''status'', VStatus GameStatusDefenderWon)]]
        \<and> fst (ProgressGame () g s') = GameStatusDefenderWon)"
  using resolved_game_gives_noop_player
    [of "stubExternals (Inr (stubContract (Inr GameStatusDefenderWon) (Inr 3) (Inr 4))) (Inr ())"
        7 "()" stubSys "stubContract (Inr GameStatusDefenderWon) (Inr 3) (Inr 4)" 0
        "()" GameStatusDefenderWon 1 "[]" "()" "\<lparr>AgreeWithProposedOutput = True\<rparr>" "''dir''"
        "()" "stubCreator None None"]
  by (simp add: new_defs stub_defs run_defs)

text \<open>
  C2. A player whose cached status is not InProgress: \<^verbatim>\<open>ProgressGame\<close> returns the cached
  status and the same player, calls neither the act step nor the loader (its only effect
  is one trace record), and the world is untouched. So over any sequence of polling cycles
  the player stays as it is and every cycle returns the same terminal status.
\<close>

theorem terminal_status_is_absorbing:
  assumes "status g \<noteq> GameStatusInProgress"
  shows "ProgressGame ctx g s =
           (status g, g,
            s\<lparr>events := events s @ [Log (logger g) LvlTrace ''Skipping completed game'' []]\<rparr>)
       \<and> Call_act \<notin> set (new_events s (snd (snd (ProgressGame ctx g s))))
       \<and> Call_GetStatus \<notin> set (new_events s (snd (snd (ProgressGame ctx g s))))
       \<and> fst (poll cycles g s) = replicate (length cycles) (status g)
       \<and> fst (snd (poll cycles g s)) = g
       \<and> Call_act \<notin> set (new_events s (snd (snd (poll cycles g s))))
       \<and> Call_GetStatus \<notin> set (new_events s (snd (snd (poll cycles g s))))"
  using assms
  by (simp add: ProgressGame_terminal poll_terminal new_events_def)

theorem terminal_status_is_absorbing_witness:
  "status (stubPlayer None (Inr GameStatusInProgress) (Inr 3) True GameStatusDefenderWon)
     \<noteq> GameStatusInProgress
   \<and> fst (ProgressGame () (stubPlayer None (Inr GameStatusInProgress) (Inr 3) True GameStatusDefenderWon) stubSys)
       = GameStatusDefenderWon
   \<and> fst (poll [(Suc, ()), (Suc, ())]
        (stubPlayer None (Inr GameStatusInProgress) (Inr 3) True GameStatusDefenderWon) stubSys)
       = [GameStatusDefenderWon, GameStatusDefenderWon]
   \<and> status (fst (snd (poll [(Suc, ()), (Suc, ())]
        (stubPlayer None (Inr GameStatusInProgress) (Inr 3) True GameStatusDefenderWon) stubSys)))
       = GameStatusDefenderWon"
  using terminal_status_is_absorbing
    [of "stubPlayer None (Inr GameStatusInProgress) (Inr 3) True GameStatusDefenderWon"
        "()" stubSys "[(Suc, ()), (Suc, ())]"]
  by (simp add: stubPlayer_def)

text \<open>
  C3. A player whose cached status is InProgress, and a status fetch that fails after the
  act step: \<^verbatim>\<open>ProgressGame\<close> returns InProgress and the player is the one it was, its
  cached status still InProgress; the failure is logged as a warning.
\<close>

theorem status_fetch_failure_keeps_in_progress:
  assumes "status g = GameStatusInProgress"
    and "act g ctx (world s) = (r, w1)"
    and "GetStatus (loader g) ctx w1 = (Inl err, w2)"
  shows "fst (ProgressGame ctx g s) = GameStatusInProgress
       \<and> fst (snd (ProgressGame ctx g s)) = g
       \<and> status (fst (snd (ProgressGame ctx g s))) = GameStatusInProgress
       \<and> last (events (snd (snd (ProgressGame ctx g s)))) =
           Log (logger g) LvlWarn ''Unable to retrieve game status'' [(''err'', VError err)]"
  using assms by (simp add: ProgressGame_fetch_failed)

theorem status_fetch_failure_keeps_in_progress_witness:
  "status (stubPlayer None (Inl (ErrorNew ''rpc down'')) (Inr 3) True GameStatusInProgress)
     = GameStatusInProgress
   \<and> GetStatus (loader (stubPlayer None (Inl (ErrorNew ''rpc down'')) (Inr 3) True GameStatusInProgress)) () 10
     = (Inl (ErrorNew ''rpc down''), 11)
   \<and> fst (ProgressGame () (stubPlayer None (Inl (ErrorNew ''rpc down'')) (Inr 3) True GameStatusInProgress) stubSys)
     = GameStatusInProgress
   \<and> status (fst (snd (ProgressGame ()
        (stubPlayer None (Inl (ErrorNew ''rpc down'')) (Inr 3) True GameStatusInProgress) stubSys)))
     = GameStatusInProgress"
  using status_fetch_failure_keeps_in_progress
    [of "stubPlayer None (Inl (ErrorNew ''rpc down'')) (Inr 3) True GameStatusInProgress"
        "()" stubSys None 10 "ErrorNew ''rpc down''" 11]
  by (simp add: stubPlayer_def stubSys_def stubContract_def GameInfo.truncate_def)

text \<open>
  C4. A player whose cached status is InProgress: whatever the act step returns, an error
  \<open>Some err\<close> included, \<^verbatim>\<open>ProgressGame\<close> runs it exactly once, on the world it was
  called in, goes on to fetch the status from the loader exactly once, on the world the act
  step left, and returns a status that the fetch alone decides (the fetched one, or
  InProgress when the fetch failed). The whole result is fixed by these two calls: the
  player is the old one, with the fetched status cached when the fetch succeeded, and the
  world is the one the last call of the cycle left. The result type has no error: the act
  step's error is only logged.
\<close>

theorem act_error_does_not_abort_cycle:
  assumes "status g = GameStatusInProgress"
    and "act g ctx (world s) = (r, w1)"
    and "GetStatus (loader g) ctx w1 = (q, w2)"
  shows "count_list (new_events s (snd (snd (ProgressGame ctx g s)))) Call_act = 1
       \<and> count_list (new_events s (snd (snd (ProgressGame ctx g s)))) Call_GetStatus = 1
       \<and> take (3 + length (act_error_log (logger g) r))
            (new_events s (snd (snd (ProgressGame ctx g s)))) =
           [Log (logger g) LvlTrace ''Checking if actions are required'' [], Call_act]
             @ act_error_log (logger g) r @ [Call_GetStatus]
       \<and> fst (ProgressGame ctx g s) =
           (case q of Inl err \<Rightarrow> GameStatusInProgress | Inr status' \<Rightarrow> status')
       \<and> ProgressGame ctx g s =
           (case q of
              Inl err \<Rightarrow>
                (GameStatusInProgress, g,
                 \<lparr>world = w2,
                  events = events s
                    @ [Log (logger g) LvlTrace ''Checking if actions are required'' [], Call_act]
                    @ act_error_log (logger g) r
                    @ [Call_GetStatus,
                       Log (logger g) LvlWarn ''Unable to retrieve game status''
                         [(''err'', VError err)]]\<rparr>)
            | Inr status' \<Rightarrow>
                (status', g\<lparr>status := status'\<rparr>,
                 logGameStatus ctx g status'
                   \<lparr>world = w2,
                    events = events s
                      @ [Log (logger g) LvlTrace ''Checking if actions are required'' [],
                         Call_act]
                      @ act_error_log (logger g) r @ [Call_GetStatus]\<rparr>))
       \<and> world (snd (snd (ProgressGame ctx g s))) =
           (case q of
              Inl err \<Rightarrow> w2
            | Inr status' \<Rightarrow>
                if status' = GameStatusInProgress
                then snd (GetClaimCount (loader g) ctx w2) else w2)"
proof (cases q)
  case (Inl err)
  with assms show ?thesis
    by (cases r) (simp_all add: ProgressGame_fetch_failed new_events_def act_error_log_def)
next
  case (Inr st)
  obtain cc w3 where cc: "GetClaimCount (loader g) ctx w2 = (cc, w3)"
    by (cases "GetClaimCount (loader g) ctx w2")
  show ?thesis
  proof (cases "st = GameStatusInProgress")
    case True
    with assms Inr cc show ?thesis
      by (cases r; cases cc)
        (simp_all add: ProgressGame_fetched logGameStatus_in_progress new_events_def
          act_error_log_def)
  next
    case False
    with assms Inr show ?thesis
      by (cases r)
        (simp_all add: ProgressGame_fetched logGameStatus_terminal new_events_def
          act_error_log_def)
  qed
qed

theorem act_error_does_not_abort_cycle_witness:
  "status (stubPlayer (Some (ErrorNew ''boom'')) (Inr GameStatusChallengerWon) (Inr 3) True
             GameStatusInProgress) = GameStatusInProgress
   \<and> act (stubPlayer (Some (ErrorNew ''boom'')) (Inr GameStatusChallengerWon) (Inr 3) True
             GameStatusInProgress) () (world stubSys) = (Some (ErrorNew ''boom''), 10)
   \<and> GetStatus (loader (stubPlayer (Some (ErrorNew ''boom'')) (Inr GameStatusChallengerWon)
             (Inr 3) True GameStatusInProgress)) () 10 = (Inr GameStatusChallengerWon, 11)
   \<and> count_list (new_events stubSys (snd (snd (ProgressGame ()
        (stubPlayer (Some (ErrorNew ''boom'')) (Inr GameStatusChallengerWon) (Inr 3) True
           GameStatusInProgress) stubSys)))) Call_act = 1
   \<and> count_list (new_events stubSys (snd (snd (ProgressGame ()
        (stubPlayer (Some (ErrorNew ''boom'')) (Inr GameStatusChallengerWon) (Inr 3) True
           GameStatusInProgress) stubSys)))) Call_GetStatus = 1
   \<and> fst (ProgressGame ()
        (stubPlayer (Some (ErrorNew ''boom'')) (Inr GameStatusChallengerWon) (Inr 3) True
           GameStatusInProgress) stubSys) = GameStatusChallengerWon
   \<and> status (fst (snd (ProgressGame ()
        (stubPlayer (Some (ErrorNew ''boom'')) (Inr GameStatusChallengerWon) (Inr 3) True
           GameStatusInProgress) stubSys))) = GameStatusChallengerWon
   \<and> world (snd (snd (ProgressGame ()
        (stubPlayer (Some (ErrorNew ''boom'')) (Inr GameStatusChallengerWon) (Inr 3) True
           GameStatusInProgress) stubSys))) = 11"
  using act_error_does_not_abort_cycle
    [of "stubPlayer (Some (ErrorNew ''boom'')) (Inr GameStatusChallengerWon) (Inr 3) True
           GameStatusInProgress"
        "()" stubSys "Some (ErrorNew ''boom'')" 10 "Inr GameStatusChallengerWon" 11]
  by (simp add: stub_defs run_defs)

text \<open>
  C5. An in-progress player whose status fetch returns a terminal status \<open>st\<close>: exactly one
  outcome record follows the fetch, and it is the last event of the cycle. It is
  ``Game won'' (at level Info) when the stance is to agree with the proposed output and
  \<open>st\<close> is ChallengerWon, or the stance is to disagree and \<open>st\<close> is DefenderWon; for every
  other pairing it is ``Game lost'' (at level Error).
\<close>

theorem outcome_logged_by_stance:
  assumes "status g = GameStatusInProgress"
    and "act g ctx (world s) = (r, w1)"
    and "GetStatus (loader g) ctx w1 = (Inr st, w2)"
    and "st \<noteq> GameStatusInProgress"
  shows "new_events s (snd (snd (ProgressGame ctx g s))) =
           [Log (logger g) LvlTrace ''Checking if actions are required'' [], Call_act]
             @ act_error_log (logger g) r
             @ [Call_GetStatus,
                if agreeWithProposedOutput g \<and> st = GameStatusChallengerWon
                   \<or> \<not> agreeWithProposedOutput g \<and> st = GameStatusDefenderWon
                then Log (logger g) LvlInfo ''Game won'' [(''status'', VStatus st)]
                else Log (logger g) LvlError ''Game lost'' [(''status'', VStatus st)]]
       \<and> logGameStatus ctx g st s =
           s\<lparr>events := events s @
             [if agreeWithProposedOutput g \<and> st = GameStatusChallengerWon
                 \<or> \<not> agreeWithProposedOutput g \<and> st = GameStatusDefenderWon
              then Log (logger g) LvlInfo ''Game won'' [(''status'', VStatus st)]
              else Log (logger g) LvlError ''Game lost'' [(''status'', VStatus st)]]\<rparr>"
  using assms
  by (simp add: ProgressGame_fetched logGameStatus_terminal new_events_def)

theorem outcome_logged_by_stance_witness:
  "new_events stubSys (snd (snd (ProgressGame ()
      (stubPlayer None (Inr GameStatusChallengerWon) (Inr 3) True GameStatusInProgress) stubSys))) =
     [Log [] LvlTrace ''Checking if actions are required'' [], Call_act, Call_GetStatus,
      Log [] LvlInfo ''Game won'' [(''status'', VStatus GameStatusChallengerWon)]]
   \<and> new_events stubSys (snd (snd (ProgressGame ()
      (stubPlayer None (Inr GameStatusDefenderWon) (Inr 3) True GameStatusInProgress) stubSys))) =
     [Log [] LvlTrace ''Checking if actions are required'' [], Call_act, Call_GetStatus,
      Log [] LvlError ''Game lost'' [(''status'', VStatus GameStatusDefenderWon)]]
   \<and> new_events stubSys (snd (snd (ProgressGame ()
      (stubPlayer None (Inr GameStatusDefenderWon) (Inr 3) False GameStatusInProgress) stubSys))) =
     [Log [] LvlTrace ''Checking if actions are required'' [], Call_act, Call_GetStatus,
      Log [] LvlInfo ''Game won'' [(''status'', VStatus GameStatusDefenderWon)]]
   \<and> new_events stubSys (snd (snd (ProgressGame ()
      (stubPlayer None (Inr GameStatusChallengerWon) (Inr 3) False GameStatusInProgress) stubSys))) =
     [Log [] LvlTrace ''Checking if actions are required'' [], Call_act, Call_GetStatus,
      Log [] LvlError ''Game lost'' [(''status'', VStatus GameStatusChallengerWon)]]"
  using
    outcome_logged_by_stance
      [of "stubPlayer None (Inr GameStatusChallengerWon) (Inr 3) True GameStatusInProgress"
          "()" stubSys None 10 GameStatusChallengerWon 11]
    outcome_logged_by_stance
      [of "stubPlayer None (Inr GameStatusDefenderWon) (Inr 3) True GameStatusInProgress"
          "()" stubSys None 10 GameStatusDefenderWon 11]
    outcome_logged_by_stance
      [of "stubPlayer None (Inr GameStatusDefenderWon) (Inr 3) False GameStatusInProgress"
          "()" stubSys None 10 GameStatusDefenderWon 11]
    outcome_logged_by_stance
      [of "stubPlayer None (Inr GameStatusChallengerWon) (Inr 3) False GameStatusInProgress"
          "()" stubSys None 10 GameStatusChallengerWon 11]
  by (simp add: stubPlayer_def stubSys_def stubContract_def GameInfo.truncate_def
        act_error_log_def)

text \<open>
  C6. \<^verbatim>\<open>NewGamePlayer\<close> returns an error, and so no player, as soon as one of its steps
  fails, and the error wraps the step's own: the creation of the contract wrapper; the
  status fetch; then, for a game in progress, the fetch of the maximum game depth; the
  resource creator; the validation of the absolute prestate; the creation of the
  responder. Each failure is stated with the steps before it having succeeded.
\<close>

theorem construction_failures_propagate:
  "(NewFaultDisputeGameContract X addr
       (NewMultiCaller X (Client X client) (DefaultBatchSize X)) (world s) = (Inl err, w1)
     \<longrightarrow> fst (NewGamePlayer X ctx logger0 m cfg dir addr txMgr client creator s) =
           Inl (Errorf ''failed to create fault dispute game contract wrapper: %w'' err))
   \<and> (NewFaultDisputeGameContract X addr
       (NewMultiCaller X (Client X client) (DefaultBatchSize X)) (world s) = (Inr l, w1)
       \<and> GetStatus l ctx w1 = (Inl err, w2)
     \<longrightarrow> fst (NewGamePlayer X ctx logger0 m cfg dir addr txMgr client creator s) =
           Inl (Errorf ''failed to fetch game status: %w'' err))
   \<and> (NewFaultDisputeGameContract X addr
       (NewMultiCaller X (Client X client) (DefaultBatchSize X)) (world s) = (Inr l, w1)
       \<and> GetStatus l ctx w1 = (Inr GameStatusInProgress, w2)
       \<and> GetMaxGameDepth l ctx w2 = (Inl err, w3)
     \<longrightarrow> fst (NewGamePlayer X ctx logger0 m cfg dir addr txMgr client creator s) =
           Inl (Errorf ''failed to fetch the game depth: %w'' err))
   \<and> (NewFaultDisputeGameContract X addr
       (NewMultiCaller X (Client X client) (DefaultBatchSize X)) (world s) = (Inr l, w1)
       \<and> GetStatus l ctx w1 = (Inr GameStatusInProgress, w2)
       \<and> GetMaxGameDepth l ctx w2 = (Inr d, w3)
       \<and> creator addr d dir w3 = (Inl err, w4)
     \<longrightarrow> fst (NewGamePlayer X ctx logger0 m cfg dir addr txMgr client creator s) =
           Inl (Errorf ''failed to create trace provider: %w'' err))
   \<and> (NewFaultDisputeGameContract X addr
       (NewMultiCaller X (Client X client) (DefaultBatchSize X)) (world s) = (Inr l, w1)
       \<and> GetStatus l ctx w1 = (Inr GameStatusInProgress, w2)
       \<and> GetMaxGameDepth l ctx w2 = (Inr d, w3)
       \<and> creator addr d dir w3 = (Inr (p, u, v), w4)
       \<and> v ctx l w4 = (Some err, w5)
     \<longrightarrow> fst (NewGamePlayer X ctx logger0 m cfg dir addr txMgr client creator s) =
           Inl (Errorf ''failed to validate absolute prestate: %w'' err))
   \<and> (NewFaultDisputeGameContract X addr
       (NewMultiCaller X (Client X client) (DefaultBatchSize X)) (world s) = (Inr l, w1)
       \<and> GetStatus l ctx w1 = (Inr GameStatusInProgress, w2)
       \<and> GetMaxGameDepth l ctx w2 = (Inr d, w3)
       \<and> creator addr d dir w3 = (Inr (p, u, v), w4)
       \<and> v ctx l w4 = (None, w5)
       \<and> NewFaultResponder X (Logger_New logger0 ''game'' (VAddress addr)) txMgr addr w5
           = (Inl err, w6)
     \<longrightarrow> fst (NewGamePlayer X ctx logger0 m cfg dir addr txMgr client creator s) =
           Inl (Errorf ''failed to create the responder: %w'' err))"
proof (intro conjI impI)
  assume "NewFaultDisputeGameContract X addr
       (NewMultiCaller X (Client X client) (DefaultBatchSize X)) (world s) = (Inl err, w1)"
  then show "fst (NewGamePlayer X ctx logger0 m cfg dir addr txMgr client creator s) =
           Inl (Errorf ''failed to create fault dispute game contract wrapper: %w'' err)"
    by (simp add: NewGamePlayer_contract_failed)
next
  assume "NewFaultDisputeGameContract X addr
       (NewMultiCaller X (Client X client) (DefaultBatchSize X)) (world s) = (Inr l, w1)
       \<and> GetStatus l ctx w1 = (Inl err, w2)"
  then show "fst (NewGamePlayer X ctx logger0 m cfg dir addr txMgr client creator s) =
           Inl (Errorf ''failed to fetch game status: %w'' err)"
    by (simp add: NewGamePlayer_status_failed)
next
  assume "NewFaultDisputeGameContract X addr
       (NewMultiCaller X (Client X client) (DefaultBatchSize X)) (world s) = (Inr l, w1)
       \<and> GetStatus l ctx w1 = (Inr GameStatusInProgress, w2)
       \<and> GetMaxGameDepth l ctx w2 = (Inl err, w3)"
  then show "fst (NewGamePlayer X ctx logger0 m cfg dir addr txMgr client creator s) =
           Inl (Errorf ''failed to fetch the game depth: %w'' err)"
    by (simp add: NewGamePlayer_depth_failed)
next
  assume "NewFaultDisputeGameContract X addr
       (NewMultiCaller X (Client X client) (DefaultBatchSize X)) (world s) = (Inr l, w1)
       \<and> GetStatus l ctx w1 = (Inr GameStatusInProgress, w2)
       \<and> GetMaxGameDepth l ctx w2 = (Inr d, w3)
       \<and> creator addr d dir w3 = (Inl err, w4)"
  then show "fst (NewGamePlayer X ctx logger0 m cfg dir addr txMgr client creator s) =
           Inl (Errorf ''failed to create trace provider: %w'' err)"
    by (simp add: NewGamePlayer_creator_failed)
next
  assume "NewFaultDisputeGameContract X addr
       (NewMultiCaller X (Client X client) (DefaultBatchSize X)) (world s) = (Inr l, w1)
       \<and> GetStatus l ctx w1 = (Inr GameStatusInProgress, w2)
       \<and> GetMaxGameDepth l ctx w2 = (Inr d, w3)
       \<and> creator addr d dir w3 = (Inr (p, u, v), w4)
       \<and> v ctx l w4 = (Some err, w5)"
  then show "fst (NewGamePlayer X ctx logger0 m cfg dir addr txMgr client creator s) =
           Inl (Errorf ''failed to validate absolute prestate: %w'' err)"
    using NewGamePlayer_prestate_failed [of X addr client s l w1 ctx w2 d w3 creator dir p u v w4 err w5]
    by simp
next
  assume "NewFaultDisputeGameContract X addr
       (NewMultiCaller X (Client X client) (DefaultBatchSize X)) (world s) = (Inr l, w1)
       \<and> GetStatus l ctx w1 = (Inr GameStatusInProgress, w2)
       \<and> GetMaxGameDepth l ctx w2 = (Inr d, w3)
       \<and> creator addr d dir w3 = (Inr (p, u, v), w4)
       \<and> v ctx l w4 = (None, w5)
       \<and> NewFaultResponder X (Logger_New logger0 ''game'' (VAddress addr)) txMgr addr w5
           = (Inl err, w6)"
  then show "fst (NewGamePlayer X ctx logger0 m cfg dir addr txMgr client creator s) =
           Inl (Errorf ''failed to create the responder: %w'' err)"
    using NewGamePlayer_responder_failed
      [of X addr client s l w1 ctx w2 d w3 creator dir p u v w4 w5 logger0 txMgr err w6]
    by simp
qed

theorem construction_failures_propagate_witness:
  "fst (NewGamePlayer (stubExternals (Inl (ErrorNew ''bad abi'')) (Inr ()))
          () [] () \<lparr>AgreeWithProposedOutput = True\<rparr> ''dir'' 7 () () (stubCreator None None)
          stubSys)
     = Inl (Errorf ''failed to create fault dispute game contract wrapper: %w''
             (ErrorNew ''bad abi''))
   \<and> fst (NewGamePlayer
          (stubExternals (Inr (stubContract (Inl (ErrorNew ''rpc down'')) (Inr 3) (Inr 4)))
             (Inr ()))
          () [] () \<lparr>AgreeWithProposedOutput = True\<rparr> ''dir'' 7 () () (stubCreator None None)
          stubSys)
     = Inl (Errorf ''failed to fetch game status: %w'' (ErrorNew ''rpc down''))
   \<and> fst (NewGamePlayer
          (stubExternals
             (Inr (stubContract (Inr GameStatusInProgress) (Inr 3) (Inl (ErrorNew ''no depth''))))
             (Inr ()))
          () [] () \<lparr>AgreeWithProposedOutput = True\<rparr> ''dir'' 7 () () (stubCreator None None)
          stubSys)
     = Inl (Errorf ''failed to fetch the game depth: %w'' (ErrorNew ''no depth''))
   \<and> fst (NewGamePlayer
          (stubExternals (Inr (stubContract (Inr GameStatusInProgress) (Inr 3) (Inr 4)))
             (Inr ()))
          () [] () \<lparr>AgreeWithProposedOutput = True\<rparr> ''dir'' 7 () ()
          (stubCreator (Some (ErrorNew ''no trace'')) None) stubSys)
     = Inl (Errorf ''failed to create trace provider: %w'' (ErrorNew ''no trace''))
   \<and> fst (NewGamePlayer
          (stubExternals (Inr (stubContract (Inr GameStatusInProgress) (Inr 3) (Inr 4)))
             (Inr ()))
          () [] () \<lparr>AgreeWithProposedOutput = True\<rparr> ''dir'' 7 () ()
          (stubCreator None (Some (ErrorNew ''prestate mismatch''))) stubSys)
     = Inl (Errorf ''failed to validate absolute prestate: %w'' (ErrorNew ''prestate mismatch''))
   \<and> fst (NewGamePlayer
          (stubExternals (Inr (stubContract (Inr GameStatusInProgress) (Inr 3) (Inr 4)))
             (Inl (ErrorNew ''no responder'')))
          () [] () \<lparr>AgreeWithProposedOutput = True\<rparr> ''dir'' 7 () () (stubCreator None None)
          stubSys)
     = Inl (Errorf ''failed to create the responder: %w'' (ErrorNew ''no responder''))"
proof (intro conjI)
  show "fst (NewGamePlayer (stubExternals (Inl (ErrorNew ''bad abi'')) (Inr ()))
          () [] () \<lparr>AgreeWithProposedOutput = True\<rparr> ''dir'' 7 () () (stubCreator None None)
          stubSys)
     = Inl (Errorf ''failed to create fault dispute game contract wrapper: %w''
             (ErrorNew ''bad abi''))"
    using construction_failures_propagate
      [where X = "stubExternals (Inl (ErrorNew ''bad abi'')) (Inr ())" and addr = 7
         and client = "()" and s = stubSys and err = "ErrorNew ''bad abi''" and ?w1.0 = 0
         and ctx = "()" and ?logger0.0 = "[]" and m = "()"
         and cfg = "\<lparr>AgreeWithProposedOutput = True\<rparr>" and dir = "''dir''" and txMgr = "()"
         and creator = "stubCreator None None", THEN conjunct1]
    by (simp add: stubExternals_def stubSys_def)
next
  show "fst (NewGamePlayer
          (stubExternals (Inr (stubContract (Inl (ErrorNew ''rpc down'')) (Inr 3) (Inr 4)))
             (Inr ()))
          () [] () \<lparr>AgreeWithProposedOutput = True\<rparr> ''dir'' 7 () () (stubCreator None None)
          stubSys)
     = Inl (Errorf ''failed to fetch game status: %w'' (ErrorNew ''rpc down''))"
    using construction_failures_propagate
      [where X = "stubExternals (Inr (stubContract (Inl (ErrorNew ''rpc down'')) (Inr 3) (Inr 4)))
                    (Inr ())"
         and addr = 7 and client = "()" and s = stubSys and err = "ErrorNew ''rpc down''"
         and l = "stubContract (Inl (ErrorNew ''rpc down'')) (Inr 3) (Inr 4)"
         and ?w1.0 = 0 and ?w2.0 = 1
         and ctx = "()" and ?logger0.0 = "[]" and m = "()"
         and cfg = "\<lparr>AgreeWithProposedOutput = True\<rparr>" and dir = "''dir''" and txMgr = "()"
         and creator = "stubCreator None None", THEN conjunct2, THEN conjunct1]
    by (simp add: stubExternals_def stubSys_def stubContract_def)
next
  show "fst (NewGamePlayer
          (stubExternals
             (Inr (stubContract (Inr GameStatusInProgress) (Inr 3) (Inl (ErrorNew ''no depth''))))
             (Inr ()))
          () [] () \<lparr>AgreeWithProposedOutput = True\<rparr> ''dir'' 7 () () (stubCreator None None)
          stubSys)
     = Inl (Errorf ''failed to fetch the game depth: %w'' (ErrorNew ''no depth''))"
    using construction_failures_propagate
      [where X = "stubExternals
                    (Inr (stubContract (Inr GameStatusInProgress) (Inr 3)
                            (Inl (ErrorNew ''no depth'')))) (Inr ())"
         and addr = 7 and client = "()" and s = stubSys and err = "ErrorNew ''no depth''"
         and l = "stubContract (Inr GameStatusInProgress) (Inr 3) (Inl (ErrorNew ''no depth''))"
         and ?w1.0 = 0 and ?w2.0 = 1 and ?w3.0 = 2
         and ctx = "()" and ?logger0.0 = "[]" and m = "()"
         and cfg = "\<lparr>AgreeWithProposedOutput = True\<rparr>" and dir = "''dir''" and txMgr = "()"
         and creator = "stubCreator None None",
         THEN conjunct2, THEN conjunct2, THEN conjunct1]
    by (simp add: stubExternals_def stubSys_def stubContract_def)
next
  show "fst (NewGamePlayer
          (stubExternals (Inr (stubContract (Inr GameStatusInProgress) (Inr 3) (Inr 4)))
             (Inr ()))
          () [] () \<lparr>AgreeWithProposedOutput = True\<rparr> ''dir'' 7 () ()
          (stubCreator (Some (ErrorNew ''no trace'')) None) stubSys)
     = Inl (Errorf ''failed to create trace provider: %w'' (ErrorNew ''no trace''))"
    using construction_failures_propagate
      [where X = "stubExternals (Inr (stubContract (Inr GameStatusInProgress) (Inr 3) (Inr 4)))
                    (Inr ())"
         and addr = 7 and client = "()" and s = stubSys and err = "ErrorNew ''no trace''"
         and l = "stubContract (Inr GameStatusInProgress) (Inr 3) (Inr 4)"
         and ?w1.0 = 0 and ?w2.0 = 1 and ?w3.0 = 2 and d = 4 and ?w4.0 = 3
         and ctx = "()" and ?logger0.0 = "[]" and m = "()"
         and cfg = "\<lparr>AgreeWithProposedOutput = True\<rparr>" and dir = "''dir''" and txMgr = "()"
         and creator = "stubCreator (Some (ErrorNew ''no trace'')) None",
         THEN conjunct2, THEN conjunct2, THEN conjunct2, THEN conjunct1]
    by (simp add: stubExternals_def stubSys_def stubContract_def stubCreator_def)
next
  show "fst (NewGamePlayer
          (stubExternals (Inr (stubContract (Inr GameStatusInProgress) (Inr 3) (Inr 4)))
             (Inr ()))
          () [] () \<lparr>AgreeWithProposedOutput = True\<rparr> ''dir'' 7 () ()
          (stubCreator None (Some (ErrorNew ''prestate mismatch''))) stubSys)
     = Inl (Errorf ''failed to validate absolute prestate: %w'' (ErrorNew ''prestate mismatch''))"
    using construction_failures_propagate
      [where X = "stubExternals (Inr (stubContract (Inr GameStatusInProgress) (Inr 3) (Inr 4)))
                    (Inr ())"
         and addr = 7 and client = "()" and s = stubSys
         and err = "ErrorNew ''prestate mismatch''"
         and l = "stubContract (Inr GameStatusInProgress) (Inr 3) (Inr 4)"
         and ?w1.0 = 0 and ?w2.0 = 1 and ?w3.0 = 2 and d = 4 and ?w4.0 = 3 and ?w5.0 = 4
         and p = "()" and u = "()"
         and v = "\<lambda>ctx l w'. (Some (ErrorNew ''prestate mismatch''), Suc w')"
         and ctx = "()" and ?logger0.0 = "[]" and m = "()"
         and cfg = "\<lparr>AgreeWithProposedOutput = True\<rparr>" and dir = "''dir''" and txMgr = "()"
         and creator = "stubCreator None (Some (ErrorNew ''prestate mismatch''))",
         THEN conjunct2, THEN conjunct2, THEN conjunct2, THEN conjunct2, THEN conjunct1]
    by (simp add: stubExternals_def stubSys_def stubContract_def stubCreator_def)
next
  show "fst (NewGamePlayer
          (stubExternals (Inr (stubContract (Inr GameStatusInProgress) (Inr 3) (Inr 4)))
             (Inl (ErrorNew ''no responder'')))
          () [] () \<lparr>AgreeWithProposedOutput = True\<rparr> ''dir'' 7 () () (stubCreator None None)
          stubSys)
     = Inl (Errorf ''failed to create the responder: %w'' (ErrorNew ''no responder''))"
    using construction_failures_propagate
      [where X = "stubExternals (Inr (stubContract (Inr GameStatusInProgress) (Inr 3) (Inr 4)))
                    (Inl (ErrorNew ''no responder''))"
         and addr = 7 and client = "()" and s = stubSys
         and err = "ErrorNew ''no responder''"
         and l = "stubContract (Inr GameStatusInProgress) (Inr 3) (Inr 4)"
         and ?w1.0 = 0 and ?w2.0 = 1 and ?w3.0 = 2 and d = 4 and ?w4.0 = 3 and ?w5.0 = 4
         and ?w6.0 = 4
         and p = "()" and u = "()" and v = "\<lambda>ctx l w'. (None, Suc w')"
         and ctx = "()" and ?logger0.0 = "[]" and m = "()"
         and cfg = "\<lparr>AgreeWithProposedOutput = True\<rparr>" and dir = "''dir''" and txMgr = "()"
         and creator = "stubCreator None None",
         THEN conjunct2, THEN conjunct2, THEN conjunct2, THEN conjunct2, THEN conjunct2]
    by (simp add: stubExternals_def stubSys_def stubContract_def stubCreator_def)
qed

text \<open>
  C7. A player whose cached status is InProgress, and a status fetch that succeeds with
  \<open>st\<close>: \<^verbatim>\<open>ProgressGame\<close> returns \<open>st\<close>, the player it leaves is the old one with the cached
  status set to \<open>st\<close>, and \<^verbatim>\<open>Status\<close> then returns \<open>st\<close>.
\<close>

theorem status_fetch_success_updates_cache:
  assumes "status g = GameStatusInProgress"
    and "act g ctx (world s) = (r, w1)"
    and "GetStatus (loader g) ctx w1 = (Inr st, w2)"
  shows "fst (ProgressGame ctx g s) = st
       \<and> fst (snd (ProgressGame ctx g s)) = g\<lparr>status := st\<rparr>
       \<and> Status (fst (snd (ProgressGame ctx g s))) = st"
  using assms by (simp add: ProgressGame_fetched Status_def)

theorem status_fetch_success_updates_cache_witness:
  "status (stubPlayer None (Inr GameStatusDefenderWon) (Inr 3) True GameStatusInProgress)
     = GameStatusInProgress
   \<and> fst (ProgressGame ()
        (stubPlayer None (Inr GameStatusDefenderWon) (Inr 3) True GameStatusInProgress) stubSys)
     = GameStatusDefenderWon
   \<and> Status (fst (snd (ProgressGame ()
        (stubPlayer None (Inr GameStatusDefenderWon) (Inr 3) True GameStatusInProgress) stubSys)))
     = GameStatusDefenderWon"
  using status_fetch_success_updates_cache
    [of "stubPlayer None (Inr GameStatusDefenderWon) (Inr 3) True GameStatusInProgress"
        "()" stubSys None 10 GameStatusDefenderWon 11]
  by (simp add: stubPlayer_def stubSys_def stubContract_def GameInfo.truncate_def Status_def)




text \<open>
  C9. After every call of \<^verbatim>\<open>ProgressGame\<close>, whatever the cached status was and whatever
  the loader answered, \<^verbatim>\<open>Status\<close> of the player returns the status the call returned;
  the same holds of the last status of any sequence of polling cycles.
\<close>

theorem returned_status_is_cached_status:
  "Status (fst (snd (ProgressGame ctx g s))) = fst (ProgressGame ctx g s)
   \<and> Status (fst (snd (poll (c # cycles) g s))) = last (fst (poll (c # cycles) g s))"
  using ProgressGame_frame [of ctx g s] poll_last [of c cycles g s]
  by (simp add: Status_def)

theorem returned_status_is_cached_status_witness:
  "Status (fst (snd (ProgressGame ()
      (stubPlayer None (Inl (ErrorNew ''rpc down'')) (Inr 3) True GameStatusInProgress) stubSys)))
     = GameStatusInProgress
   \<and> fst (ProgressGame ()
      (stubPlayer None (Inl (ErrorNew ''rpc down'')) (Inr 3) True GameStatusInProgress) stubSys)
     = GameStatusInProgress
   \<and> Status (fst (snd (ProgressGame ()
      (stubPlayer None (Inr GameStatusChallengerWon) (Inr 3) True GameStatusInProgress) stubSys)))
     = GameStatusChallengerWon
   \<and> fst (ProgressGame ()
      (stubPlayer None (Inr GameStatusChallengerWon) (Inr 3) True GameStatusInProgress) stubSys)
     = GameStatusChallengerWon"
  using
    returned_status_is_cached_status
      [of "()" "stubPlayer None (Inl (ErrorNew ''rpc down'')) (Inr 3) True GameStatusInProgress"
          stubSys "(Suc, ())" "[]"]
    returned_status_is_cached_status
      [of "()" "stubPlayer None (Inr GameStatusChallengerWon) (Inr 3) True GameStatusInProgress"
          stubSys "(Suc, ())" "[]"]
  by (simp add: stub_defs run_defs)

text \<open>
  C10. \<^verbatim>\<open>ProgressGame\<close> writes no field of the player but the cached status: the act
  function, the stance, the loader and the logger of the player it leaves are those it
  found, after one call and after any sequence of polling cycles. \<^verbatim>\<open>Status\<close> only reads:
  it returns a status and has no player to return.
\<close>

theorem only_status_field_is_written:
  "act (fst (snd (ProgressGame ctx g s))) = act g
   \<and> agreeWithProposedOutput (fst (snd (ProgressGame ctx g s))) = agreeWithProposedOutput g
   \<and> loader (fst (snd (ProgressGame ctx g s))) = loader g
   \<and> logger (fst (snd (ProgressGame ctx g s))) = logger g
   \<and> fst (snd (ProgressGame ctx g s)) = g\<lparr>status := Status (fst (snd (ProgressGame ctx g s)))\<rparr>
   \<and> act (fst (snd (poll cycles g s))) = act g
   \<and> agreeWithProposedOutput (fst (snd (poll cycles g s))) = agreeWithProposedOutput g
   \<and> loader (fst (snd (poll cycles g s))) = loader g
   \<and> logger (fst (snd (poll cycles g s))) = logger g"
proof -
  have one: "fst (snd (ProgressGame ctx g s)) = g\<lparr>status := fst (ProgressGame ctx g s)\<rparr>"
    by (rule ProgressGame_frame)
  obtain st where many: "fst (snd (poll cycles g s)) = g\<lparr>status := st\<rparr>"
    using poll_frame by blast
  have "fst (snd (ProgressGame ctx g s)) = g\<lparr>status := Status (fst (snd (ProgressGame ctx g s)))\<rparr>"
    by (subst (2) one, subst one) (simp add: Status_def)
  then show ?thesis
    by (simp add: one many)
qed

theorem only_status_field_is_written_witness:
  "agreeWithProposedOutput (fst (snd (ProgressGame ()
      (stubPlayer None (Inr GameStatusChallengerWon) (Inr 3) True GameStatusInProgress) stubSys)))
     = True
   \<and> logger (fst (snd (ProgressGame ()
      (stubPlayer None (Inr GameStatusChallengerWon) (Inr 3) True GameStatusInProgress) stubSys)))
     = []
   \<and> status (fst (snd (ProgressGame ()
      (stubPlayer None (Inr GameStatusChallengerWon) (Inr 3) True GameStatusInProgress) stubSys)))
     = GameStatusChallengerWon"
  using only_status_field_is_written
      [of "()" "stubPlayer None (Inr GameStatusChallengerWon) (Inr 3) True GameStatusInProgress"
          stubSys "[]"]
  by (simp add: stub_defs run_defs)

end
